theory Spec2Isabelle
  imports Complex_Main
begin

section \<open>Python strings\<close>

text \<open>
  Python text is modelled as \<open>string\<close>, one \<open>char\<close> per code point, and the model covers
  ASCII text: the cased characters are the 52 ASCII letters, the whitespace characters are
  the ten ASCII code points for which \<open>str.isspace\<close> holds (9 to 13, 28 to 31 and 32).
\<close>

definition whitespace :: string where
  "whitespace = [CHR 0x09, CHR 0x0A, CHR 0x0B, CHR 0x0C, CHR 0x0D, CHR 0x1C, CHR 0x1D, CHR 0x1E, CHR 0x1F, CHR 0x20]"

definition ascii_uppercase :: string where
  "ascii_uppercase = ''ABCDEFGHIJKLMNOPQRSTUVWXYZ''"

definition ascii_lowercase :: string where
  "ascii_lowercase = ''abcdefghijklmnopqrstuvwxyz''"

definition decimal_digits :: string where
  "decimal_digits = ''0123456789''"

definition isspace :: "char \<Rightarrow> bool" where
  "isspace c = (c \<in> set whitespace)"

definition isupper :: "char \<Rightarrow> bool" where
  "isupper c = (c \<in> set ascii_uppercase)"

definition islower :: "char \<Rightarrow> bool" where
  "islower c = (c \<in> set ascii_lowercase)"

definition isdigit :: "char \<Rightarrow> bool" where
  "isdigit c = (c \<in> set decimal_digits)"

definition iscased :: "char \<Rightarrow> bool" where
  "iscased c = (isupper c \<or> islower c)"

definition tolower :: "char \<Rightarrow> char" where
  "tolower c = (case map_of (zip ascii_uppercase ascii_lowercase) c of Some d \<Rightarrow> d | None \<Rightarrow> c)"

definition toupper :: "char \<Rightarrow> char" where
  "toupper c = (case map_of (zip ascii_lowercase ascii_uppercase) c of Some d \<Rightarrow> d | None \<Rightarrow> c)"

text \<open>\<open>s.lower()\<close>.\<close>

definition lower :: "string \<Rightarrow> string" where
  "lower s = map tolower s"

text \<open>\<open>s.strip()\<close>: whitespace is removed at both ends.\<close>

definition strip :: "string \<Rightarrow> string" where
  "strip s = rev (dropWhile isspace (rev (dropWhile isspace s)))"

text \<open>
  \<open>s.title()\<close>: a character that follows a cased character is lowercased, any other
  character is uppercased; the flag is whether the previous character was cased.
\<close>

fun title_from :: "bool \<Rightarrow> string \<Rightarrow> string" where
  "title_from previous_is_cased [] = []"
| "title_from previous_is_cased (c # cs) =
     (if previous_is_cased then tolower c else toupper c) # title_from (iscased c) cs"

definition title_case :: "string \<Rightarrow> string" where
  "title_case s = title_from False s"

text \<open>\<open>re.sub(r'[^a-zA-Z0-9]', '', s)\<close>: only ASCII letters and digits are kept.\<close>

definition alnum :: "char \<Rightarrow> bool" where
  "alnum c = (islower c \<or> isupper c \<or> isdigit c)"

definition strip_non_alnum :: "string \<Rightarrow> string" where
  "strip_non_alnum s = filter alnum s"

text \<open>
  \<open>re.sub(r'\s+', ' ', s)\<close>: every maximal run of whitespace becomes one space; the flag
  is whether the previous character belonged to such a run.
\<close>

fun collapse_from :: "bool \<Rightarrow> string \<Rightarrow> string" where
  "collapse_from in_run [] = []"
| "collapse_from in_run (c # cs) =
     (if isspace c then (if in_run then collapse_from True cs else CHR '' '' # collapse_from True cs)
      else c # collapse_from False cs)"

definition collapse_whitespace :: "string \<Rightarrow> string" where
  "collapse_whitespace s = collapse_from False s"

text \<open>\<open>', '.join(xs)\<close>.\<close>

fun join_comma :: "string list \<Rightarrow> string" where
  "join_comma [] = []"
| "join_comma [x] = x"
| "join_comma (x # y # ys) = x @ '', '' @ join_comma (y # ys)"

text \<open>\<open>s.split(', ')\<close>: the pieces between the occurrences of the separator, never empty as a list.\<close>

fun split_comma :: "string \<Rightarrow> string list" where
  "split_comma [] = [[]]"
| "split_comma [c] = [[c]]"
| "split_comma (c # d # cs) =
     (if c = CHR '','' \<and> d = CHR '' '' then [] # split_comma cs
      else (case split_comma (d # cs) of w # ws \<Rightarrow> (c # w) # ws | [] \<Rightarrow> [[c]]))"

text \<open>\<open>str(n)\<close> for an integer: decimal digits, with a minus sign below zero.\<close>

fun digits :: "nat \<Rightarrow> string" where
  "digits n = (if n < 10 then [decimal_digits ! n] else digits (n div 10) @ [decimal_digits ! (n mod 10)])"

declare digits.simps [simp del]

definition str_int :: "int \<Rightarrow> string" where
  "str_int i = (if i < 0 then CHR ''-'' # digits (nat (- i)) else digits (nat i))"

section \<open>Extractor\<close>

text \<open>
  The JSON objects of the catalogue: a key that is absent is \<open>None\<close>. A year is an integer,
  an edition count is an integer, names and titles are text.
\<close>

record author =
  author_name :: "string option"

record work =
  work_title :: "string option"
  work_authors :: "author list option"
  work_first_publish_year :: "int option"
  work_edition_count :: "int option"
  work_key :: "string option"

record api_response =
  response_name :: "string option"
  response_works :: "work list option"

text \<open>
  A cell of the \<open>publish_year\<close> column: the \<open>None\<close> of the extractor, an integer, the
  float64 value of an integer (\<open>YFloat y\<close> is \<open>float(y)\<close>), or NaN.
\<close>

datatype yearval = YNone | YInt int | YFloat int | YNaN

text \<open>
  A row of the table. The columns \<open>id\<close>, \<open>entity_type\<close>, \<open>date_ingested\<close> and
  \<open>confidence_score\<close> do not exist before normalization: there they are \<open>None\<close>.
  The two confidence values are the numbers the literals \<open>1.0\<close> and \<open>0.7\<close> denote.
\<close>

record row =
  title :: string
  authors :: string
  publish_year :: yearval
  subject :: string
  edition_count :: int
  key :: string
  book_id :: "string option"
  entity_type :: "string option"
  date_ingested :: "string option"
  confidence_score :: "real option"

definition get_or :: "'a option \<Rightarrow> 'a \<Rightarrow> 'a" where
  "get_or v d = (case v of None \<Rightarrow> d | Some x \<Rightarrow> x)"

definition extract_authors :: "work \<Rightarrow> string list" where
  "extract_authors w =
     (case work_authors w of None \<Rightarrow> []
      | Some as \<Rightarrow> map (\<lambda>a. get_or (author_name a) ''Unknown'') as)"

definition extract_year :: "work \<Rightarrow> yearval" where
  "extract_year w = (case work_first_publish_year w of None \<Rightarrow> YNone | Some y \<Rightarrow> YInt y)"

definition extract_book :: "api_response \<Rightarrow> work \<Rightarrow> row" where
  "extract_book r w =
     \<lparr> title = get_or (work_title w) ''Unknown Title'',
       authors = (if extract_authors w \<noteq> [] then join_comma (extract_authors w) else ''Unknown''),
       publish_year = extract_year w,
       subject = get_or (response_name r) ''Unknown Subject'',
       edition_count = get_or (work_edition_count w) 0,
       key = get_or (work_key w) [],
       book_id = None, entity_type = None, date_ingested = None, confidence_score = None \<rparr>"

definition extract_book_data :: "api_response option \<Rightarrow> row list" where
  "extract_book_data api =
     (case api of None \<Rightarrow> []
      | Some r \<Rightarrow> (case response_works r of None \<Rightarrow> [] | Some ws \<Rightarrow> map (extract_book r) ws))"

section \<open>Normalizer\<close>

text \<open>
  \<open>pd.to_numeric(col, errors='coerce')\<close>: a column of integers stays a column of integers;
  as soon as one cell is missing the whole column is float64, an integer \<open>y\<close> becomes
  \<open>float(y)\<close> and a missing cell NaN.
\<close>

definition is_int_cell :: "yearval \<Rightarrow> bool" where
  "is_int_cell v = (case v of YInt y \<Rightarrow> True | _ \<Rightarrow> False)"

definition to_float_cell :: "yearval \<Rightarrow> yearval" where
  "to_float_cell v = (case v of YInt y \<Rightarrow> YFloat y | YFloat y \<Rightarrow> YFloat y | _ \<Rightarrow> YNaN)"

definition to_numeric :: "yearval list \<Rightarrow> yearval list" where
  "to_numeric col = (if list_all is_int_cell col then col else map to_float_cell col)"

definition notnull :: "yearval \<Rightarrow> bool" where
  "notnull v = (case v of YNone \<Rightarrow> False | YNaN \<Rightarrow> False | _ \<Rightarrow> True)"

text \<open>
  The text an f-string gives a cell: \<open>1925\<close>, \<open>1925.0\<close>, \<open>nan\<close>, \<open>None\<close>. The float text is
  the one Python prints for integers of magnitude below \<open>10^16\<close>, which every year is.
\<close>

definition year_text :: "yearval \<Rightarrow> string" where
  "year_text v = (case v of YInt y \<Rightarrow> str_int y | YFloat y \<Rightarrow> str_int y @ ''.0''
     | YNaN \<Rightarrow> ''nan'' | YNone \<Rightarrow> ''None'')"

text \<open>The lambda of the \<open>id\<close> column, on one row.\<close>

definition make_id :: "row \<Rightarrow> string" where
  "make_id x = ''book_'' @ take 20 (strip_non_alnum (lower (title x))) @ ''_'' @ year_text (publish_year x)"

text \<open>The lambda of the \<open>confidence_score\<close> column, on one row.\<close>

definition make_confidence :: "row \<Rightarrow> real" where
  "make_confidence x = (if notnull (publish_year x) \<and> authors x \<noteq> ''Unknown'' then 1 else 7 / 10)"

text \<open>The column assignments of \<open>clean_data\<close>, in the order of the source.\<close>

definition set_title :: "row list \<Rightarrow> row list" where
  "set_title df = map (\<lambda>x. x\<lparr>title := title_case (strip (title x))\<rparr>) df"

definition set_publish_year :: "row list \<Rightarrow> row list" where
  "set_publish_year df = map2 (\<lambda>x v. x\<lparr>publish_year := v\<rparr>) df (to_numeric (map publish_year df))"

definition set_authors :: "row list \<Rightarrow> row list" where
  "set_authors df = map (\<lambda>x. x\<lparr>authors := strip (collapse_whitespace (authors x))\<rparr>) df"

definition set_id :: "row list \<Rightarrow> row list" where
  "set_id df = map (\<lambda>x. x\<lparr>book_id := Some (make_id x)\<rparr>) df"

definition set_entity_type :: "row list \<Rightarrow> row list" where
  "set_entity_type df = map (\<lambda>x. x\<lparr>entity_type := Some ''book''\<rparr>) df"

definition set_date_ingested :: "string \<Rightarrow> row list \<Rightarrow> row list" where
  "set_date_ingested today df = map (\<lambda>x. x\<lparr>date_ingested := Some today\<rparr>) df"

definition set_confidence_score :: "row list \<Rightarrow> row list" where
  "set_confidence_score df = map (\<lambda>x. x\<lparr>confidence_score := Some (make_confidence x)\<rparr>) df"

text \<open>
  The table a call of \<open>clean_data\<close> returns, from the rows of its argument; \<open>today\<close> is the
  text of \<open>datetime.now().strftime('%Y-%m-%d')\<close>.
\<close>

definition cleaned_rows :: "string \<Rightarrow> row list \<Rightarrow> row list" where
  "cleaned_rows today df =
     set_confidence_score (set_date_ingested today (set_entity_type (set_id
       (set_authors (set_publish_year (set_title df))))))"





section \<open>Fetcher\<close>

datatype exn = RequestException | JSONDecodeError | AttributeError | KeyError | Neo4jError

text \<open>
  What \<open>requests.get\<close> gives back: a response with a status code and a body, whose
  \<open>json()\<close> is the parsed body or raises when the body is not JSON (\<open>None\<close> here); or
  the exception of a transport failure. The network is a parameter, from the URL.
\<close>

record response =
  status_code :: int
  json :: "api_response option"

text \<open>
  The result is the list of the URLs requested, and what the call returns: \<open>Inl\<close> an
  exception that leaves the function, \<open>Inr None\<close> the value \<open>None\<close>.
\<close>

definition fetch_books_by_subject ::
    "(string \<Rightarrow> exn + response) \<Rightarrow> string \<Rightarrow> int \<Rightarrow> string list \<times> (exn + api_response option)" where
  "fetch_books_by_subject requests_get subj limit =
     (let url = ''http://openlibrary.org/subjects/'' @ subj @ ''.json?limit='' @ str_int limit
      in ([url],
          (case requests_get url of
             Inl e \<Rightarrow> Inl e
           | Inr r \<Rightarrow>
               if status_code r = 200
               then (case json r of None \<Rightarrow> Inl JSONDecodeError | Some body \<Rightarrow> Inr (Some body))
               else Inr None)))"

section \<open>Graph database\<close>

text \<open>
  The property graph: Book nodes by their id (\<open>None\<close> for a node that has an id only),
  the three other kinds of nodes by their unique property, and the three kinds of edges.
  MERGE creates what is absent and matches what is present.
\<close>

record book_node =
  node_title :: string
  node_edition_count :: int
  node_confidence_score :: real
  node_date_ingested :: string

record graph =
  book_nodes :: "string \<rightharpoonup> book_node option"
  author_nodes :: "string set"
  subject_nodes :: "string set"
  year_nodes :: "int set"
  has_subject :: "(string \<times> string) set"
  published_in :: "(string \<times> int) set"
  written_by :: "(string \<times> string) set"

definition empty_graph :: graph where
  "empty_graph = \<lparr> book_nodes = Map.empty, author_nodes = {}, subject_nodes = {}, year_nodes = {},
     has_subject = {}, published_in = {}, written_by = {} \<rparr>"

text \<open>The four statements \<open>create_book_nodes\<close> sends, with their parameters.\<close>

datatype statement =
    Merge_book string string int real string
  | Merge_has_subject string string
  | Merge_published_in int string
  | Merge_written_by string string

definition merge_book_id :: "string \<Rightarrow> graph \<Rightarrow> graph" where
  "merge_book_id i g = (if i \<in> dom (book_nodes g) then g else g\<lparr>book_nodes := (book_nodes g)(i \<mapsto> None)\<rparr>)"

fun run_statement :: "statement \<Rightarrow> graph \<Rightarrow> graph" where
  "run_statement (Merge_book i t n c d) g =
     g\<lparr>book_nodes := (book_nodes g)(i \<mapsto> Some \<lparr>node_title = t, node_edition_count = n,
        node_confidence_score = c, node_date_ingested = d\<rparr>)\<rparr>"
| "run_statement (Merge_has_subject s i) g =
     (let g = g\<lparr>subject_nodes := insert s (subject_nodes g)\<rparr>; g = merge_book_id i g
      in g\<lparr>has_subject := insert (i, s) (has_subject g)\<rparr>)"
| "run_statement (Merge_published_in y i) g =
     (let g = g\<lparr>year_nodes := insert y (year_nodes g)\<rparr>; g = merge_book_id i g
      in g\<lparr>published_in := insert (i, y) (published_in g)\<rparr>)"
| "run_statement (Merge_written_by a i) g =
     (let g = g\<lparr>author_nodes := insert a (author_nodes g)\<rparr>; g = merge_book_id i g
      in g\<lparr>written_by := insert (i, a) (written_by g)\<rparr>)"

definition run_statements :: "statement list \<Rightarrow> graph \<Rightarrow> graph" where
  "run_statements ss g = foldl (\<lambda>g s. run_statement s g) g ss"

text \<open>\<open>int(v)\<close> on a cell of the year column that is not null.\<close>

definition year_int :: "yearval \<Rightarrow> int" where
  "year_int v = (case v of YInt y \<Rightarrow> y | YFloat y \<Rightarrow> y | _ \<Rightarrow> 0)"

text \<open>
  The body of the loop of \<open>create_book_nodes\<close> on one row: the statements it sends, or
  the KeyError of a row that has no \<open>id\<close>, \<open>confidence_score\<close> or \<open>date_ingested\<close> column.
\<close>

definition book_statements :: "row \<Rightarrow> exn + statement list" where
  "book_statements book =
     (case (book_id book, confidence_score book, date_ingested book) of
        (Some i, Some c, Some d) \<Rightarrow>
          Inr ([Merge_book i (title book) (edition_count book) c d,
                Merge_has_subject (subject book) i]
               @ (if notnull (publish_year book) then [Merge_published_in (year_int (publish_year book)) i] else [])
               @ (if authors book \<noteq> ''Unknown''
                  then map (\<lambda>author. Merge_written_by author i) (split_comma (authors book)) else []))
      | _ \<Rightarrow> Inl KeyError)"

fun create_book_nodes :: "row list \<Rightarrow> exn + statement list" where
  "create_book_nodes [] = Inr []"
| "create_book_nodes (book # batch) =
     (case book_statements book of Inl e \<Rightarrow> Inl e
      | Inr ss \<Rightarrow> (case create_book_nodes batch of Inl e \<Rightarrow> Inl e | Inr rest \<Rightarrow> Inr (ss @ rest)))"

section \<open>Graph loader\<close>

text \<open>
  The configuration module is not part of the sources: its three constants are a
  parameter.
\<close>

record config =
  NEO4J_URI :: string
  NEO4J_USER :: string
  NEO4J_PASSWORD :: string

text \<open>A driver is known by the address and the credentials it was created with.\<close>

record Neo4jConnector =
  uri :: string
  user :: string
  password :: string
  driver :: "(string \<times> string \<times> string) option"

definition init :: "config \<Rightarrow> string \<Rightarrow> string \<Rightarrow> string \<Rightarrow> Neo4jConnector" where
  "init cfg uri_arg user_arg password_arg =
     \<lparr> uri = NEO4J_URI cfg, user = NEO4J_USER cfg, password = NEO4J_PASSWORD cfg, driver = None \<rparr>"

text \<open>
  The database server: its graph, the journal of the write transactions attempted (the
  batch and whether it was committed), and which calls of the driver raise: the calls
  are counted from 0, and call \<open>k\<close> raises when \<open>raises k\<close>. A call is the creation of
  a driver, the opening of a session, an auto-commit \<open>session.run\<close> or a managed write
  transaction, taken with its final outcome.
\<close>

record server =
  graph :: graph
  journal :: "(row list \<times> bool) list"
  raises :: "nat \<Rightarrow> bool"
  calls :: nat

definition call :: "server \<Rightarrow> (exn + unit) \<times> server" where
  "call s = ((if raises s (calls s) then Inl Neo4jError else Inr ()), s\<lparr>calls := calls s + 1\<rparr>)"

text \<open>
  Python values the operations return; \<open>'r\<close> is what a metric of the analytics is
  (a dictionary or a list of pairs, built from the records of a query).
\<close>

datatype 'r pyval = PyNone | PyBool bool | PyDict "(string \<times> 'r) list"

text \<open>\<open>self.driver.session()\<close>: an AttributeError when there is no driver.\<close>

definition session :: "Neo4jConnector \<Rightarrow> server \<Rightarrow> (exn + unit) \<times> server" where
  "session self s = (case driver self of None \<Rightarrow> (Inl AttributeError, s) | Some d \<Rightarrow> call s)"

text \<open>\<open>session.run(query)\<close> in auto-commit mode: the effect on the graph happens when the call does not raise.\<close>

definition session_run :: "(graph \<Rightarrow> graph) \<Rightarrow> server \<Rightarrow> (exn + unit) \<times> server" where
  "session_run effect s =
     (case call s of (Inl e, s') \<Rightarrow> (Inl e, s') | (Inr u, s') \<Rightarrow> (Inr (), s'\<lparr>graph := effect (graph s')\<rparr>))"

text \<open>
  \<open>session.execute_write(create_book_nodes, batch)\<close>: the statements of the batch are
  committed together, or, when the function or the server raises, not at all.
\<close>

definition execute_write :: "row list \<Rightarrow> server \<Rightarrow> (exn + unit) \<times> server" where
  "execute_write batch s =
     (case call s of
        (Inl e, s') \<Rightarrow> (Inl e, s'\<lparr>journal := journal s' @ [(batch, False)]\<rparr>)
      | (Inr u, s') \<Rightarrow>
          (case create_book_nodes batch of
             Inl e \<Rightarrow> (Inl e, s'\<lparr>journal := journal s' @ [(batch, False)]\<rparr>)
           | Inr ss \<Rightarrow> (Inr (), s'\<lparr>graph := run_statements ss (graph s'),
                                   journal := journal s' @ [(batch, True)]\<rparr>)))"

text \<open>Sequencing with exceptions, and \<open>try: ... except Exception as e: ...\<close>.\<close>

definition and_then ::
    "('s \<Rightarrow> (exn + 'a) \<times> 's) \<Rightarrow> ('a \<Rightarrow> 's \<Rightarrow> (exn + 'b) \<times> 's) \<Rightarrow> 's \<Rightarrow> (exn + 'b) \<times> 's" where
  "and_then m f s = (case m s of (Inl e, s') \<Rightarrow> (Inl e, s') | (Inr x, s') \<Rightarrow> f x s')"

definition return :: "'a \<Rightarrow> 's \<Rightarrow> (exn + 'a) \<times> 's" where
  "return x s = (Inr x, s)"

definition try_except ::
    "('s \<Rightarrow> (exn + 'a) \<times> 's) \<Rightarrow> (exn \<Rightarrow> 'a) \<Rightarrow> 's \<Rightarrow> (exn + 'a) \<times> 's" where
  "try_except body handler s = (case body s of (Inl e, s') \<Rightarrow> (Inr (handler e), s') | (Inr x, s') \<Rightarrow> (Inr x, s'))"

text \<open>The operations; the logging is left out.\<close>

definition connect :: "Neo4jConnector \<Rightarrow> server \<Rightarrow> (exn + 'r pyval) \<times> Neo4jConnector \<times> server" where
  "connect self s =
     (case call s of
        (Inr u, s') \<Rightarrow> (Inr (PyBool True), self\<lparr>driver := Some (uri self, user self, password self)\<rparr>, s')
      | (Inl e, s') \<Rightarrow> (Inr (PyBool False), self, s'))"

definition verify_connection :: "Neo4jConnector \<Rightarrow> server \<Rightarrow> (exn + 'r pyval) \<times> server" where
  "verify_connection self =
     try_except
       (and_then (session self) (\<lambda>u.
        and_then (session_run (\<lambda>g. g)) (\<lambda>u.
        return (PyBool True))))
       (\<lambda>e. PyBool False)"

definition clear_database :: "Neo4jConnector \<Rightarrow> server \<Rightarrow> (exn + 'r pyval) \<times> server" where
  "clear_database self =
     try_except
       (and_then (session self) (\<lambda>u.
        and_then (session_run (\<lambda>g. empty_graph)) (\<lambda>u.
        return PyNone)))
       (\<lambda>e. PyNone)"

definition create_constraints :: "Neo4jConnector \<Rightarrow> server \<Rightarrow> (exn + 'r pyval) \<times> server" where
  "create_constraints self =
     try_except
       (and_then (session self) (\<lambda>u.
        and_then (session_run (\<lambda>g. g)) (\<lambda>u.
        and_then (session_run (\<lambda>g. g)) (\<lambda>u.
        and_then (session_run (\<lambda>g. g)) (\<lambda>u.
        and_then (session_run (\<lambda>g. g)) (\<lambda>u.
        return PyNone))))))
       (\<lambda>e. PyNone)"

text \<open>
  The batches of \<open>load_books\<close>: \<open>books_df.iloc[i:i + batch_size]\<close> for \<open>i\<close> in
  \<open>range(0, len(books_df), batch_size)\<close>.
\<close>

definition batch_size :: nat where
  "batch_size = 50"

definition batch_starts :: "nat \<Rightarrow> nat list" where
  "batch_starts n = map (\<lambda>k. k * batch_size) [0 ..< (n + batch_size - 1) div batch_size]"

definition batches :: "row list \<Rightarrow> row list list" where
  "batches books_df = map (\<lambda>i. take batch_size (drop i books_df)) (batch_starts (length books_df))"

text \<open>The loop over the batches: an exception of a transaction leaves the loop.\<close>

fun write_batches :: "row list list \<Rightarrow> server \<Rightarrow> (exn + unit) \<times> server" where
  "write_batches [] s = (Inr (), s)"
| "write_batches (batch # rest) s =
     (case execute_write batch s of (Inl e, s') \<Rightarrow> (Inl e, s') | (Inr u, s') \<Rightarrow> write_batches rest s')"

definition load_books :: "Neo4jConnector \<Rightarrow> row list \<Rightarrow> server \<Rightarrow> (exn + 'r pyval) \<times> server" where
  "load_books self books_df =
     try_except
       (and_then (session self) (\<lambda>u.
        and_then (write_batches (batches books_df)) (\<lambda>u.
        return PyNone)))
       (\<lambda>e. PyNone)"

text \<open>
  The analytics: four read queries, each stored under its metric; what a query answers
  on a graph is a parameter. \<open>session_query\<close> is a \<open>session.run\<close> whose records are read.
\<close>

definition session_query :: "(graph \<Rightarrow> 'r) \<Rightarrow> server \<Rightarrow> (exn + 'r) \<times> server" where
  "session_query answer s =
     (case call s of (Inl e, s') \<Rightarrow> (Inl e, s') | (Inr u, s') \<Rightarrow> (Inr (answer (graph s')), s'))"

definition run_analytics_queries ::
    "(string \<Rightarrow> graph \<Rightarrow> 'r) \<Rightarrow> Neo4jConnector \<Rightarrow> server \<Rightarrow> (exn + 'r pyval) \<times> server" where
  "run_analytics_queries answer self =
     try_except
       (and_then (session self) (\<lambda>u.
        and_then (session_query (answer ''node_counts'')) (\<lambda>r1.
        and_then (session_query (answer ''top_authors'')) (\<lambda>r2.
        and_then (session_query (answer ''books_by_decade'')) (\<lambda>r3.
        and_then (session_query (answer ''top_subjects'')) (\<lambda>r4.
        return (PyDict [(''node_counts'', r1), (''top_authors'', r2),
                        (''books_by_decade'', r3), (''top_subjects'', r4)])))))))
       (\<lambda>e. PyDict [])"

section \<open>Example inputs\<close>

text \<open>
  The work of the end-to-end scenario and a work that has neither authors nor a year,
  with the flat records the extractor makes of them under the subject \<open>fiction\<close>.
\<close>

definition gatsby :: work where
  "gatsby = \<lparr> work_title = Some '' the great gatsby '',
     work_authors = Some [\<lparr>author_name = Some ''F. Scott Fitzgerald''\<rparr>],
     work_first_publish_year = Some 1925, work_edition_count = Some 3, work_key = None \<rparr>"

definition anonymous :: work where
  "anonymous = \<lparr> work_title = Some ''Beowulf'', work_authors = None,
     work_first_publish_year = None, work_edition_count = Some 7, work_key = None \<rparr>"

definition fiction :: "work list \<Rightarrow> api_response" where
  "fiction ws = \<lparr> response_name = Some ''fiction'', response_works = Some ws \<rparr>"

definition gatsby_row :: row where
  "gatsby_row = \<lparr> title = '' the great gatsby '', authors = ''F. Scott Fitzgerald'',
     publish_year = YInt 1925, subject = ''fiction'', edition_count = 3, key = [],
     book_id = None, entity_type = None, date_ingested = None, confidence_score = None \<rparr>"

definition anonymous_row :: row where
  "anonymous_row = \<lparr> title = ''Beowulf'', authors = ''Unknown'',
     publish_year = YNone, subject = ''fiction'', edition_count = 7, key = [],
     book_id = None, entity_type = None, date_ingested = None, confidence_score = None \<rparr>"

text \<open>What the seven column assignments do to one row, given its cell of the coerced year column.\<close>

definition clean_row :: "string \<Rightarrow> yearval \<Rightarrow> row \<Rightarrow> row" where
  "clean_row today v x =
     (let x = x\<lparr>title := title_case (strip (title x))\<rparr>;
          x = x\<lparr>publish_year := v\<rparr>;
          x = x\<lparr>authors := strip (collapse_whitespace (authors x))\<rparr>;
          x = x\<lparr>book_id := Some (make_id x)\<rparr>;
          x = x\<lparr>entity_type := Some ''book''\<rparr>;
          x = x\<lparr>date_ingested := Some today\<rparr>
      in x\<lparr>confidence_score := Some (make_confidence x)\<rparr>)"




definition coauthored :: work where
  "coauthored = \<lparr> work_title = Some ''Lyrical Ballads'',
     work_authors = Some [\<lparr>author_name = None\<rparr>, \<lparr>author_name = None\<rparr>],
     work_first_publish_year = Some 1798, work_edition_count = Some 2, work_key = None \<rparr>"

definition coauthored_row :: row where
  "coauthored_row = \<lparr> title = ''Lyrical Ballads'', authors = ''Unknown, Unknown'',
     publish_year = YInt 1798, subject = ''fiction'', edition_count = 2, key = [],
     book_id = None, entity_type = None, date_ingested = None, confidence_score = None \<rparr>"

definition nameless :: work where
  "nameless = \<lparr> work_title = Some ''Beowulf'', work_authors = Some [\<lparr>author_name = None\<rparr>],
     work_first_publish_year = Some 1000, work_edition_count = Some 7, work_key = None \<rparr>"

text \<open>Kinds of statements, and rows that have the columns \<open>create_book_nodes\<close> reads.\<close>

definition is_written_by :: "statement \<Rightarrow> bool" where
  "is_written_by s = (case s of Merge_written_by a i \<Rightarrow> True | _ \<Rightarrow> False)"

definition is_published_in :: "statement \<Rightarrow> bool" where
  "is_published_in s = (case s of Merge_published_in y i \<Rightarrow> True | _ \<Rightarrow> False)"

definition loadable :: "row \<Rightarrow> bool" where
  "loadable x = (book_id x \<noteq> None \<and> confidence_score x \<noteq> None \<and> date_ingested x \<noteq> None)"

text \<open>The statements of a batch of loadable rows, and the graph after a list of batches is committed.\<close>

definition batch_statements :: "row list \<Rightarrow> statement list" where
  "batch_statements batch = (case create_book_nodes batch of Inr ss \<Rightarrow> ss | Inl e \<Rightarrow> [])"

definition committed :: "row list list \<Rightarrow> graph \<Rightarrow> graph" where
  "committed bs g = foldl (\<lambda>g b. run_statements (batch_statements b) g) g bs"

text \<open>
  A normalized row, a connector that has a driver, a server with an empty graph and a
  given schedule of failures, a configuration, and networks: one that cannot be
  reached, one that answers 404, one that answers 200 with a body.
\<close>

definition gatsby_clean :: row where
  "gatsby_clean = \<lparr> title = ''The Great Gatsby'', authors = ''F. Scott Fitzgerald'',
     publish_year = YInt 1925, subject = ''fiction'', edition_count = 3, key = [],
     book_id = Some ''book_thegreatgatsby_1925'', entity_type = Some ''book'',
     date_ingested = Some ''2024-05-01'', confidence_score = Some 1 \<rparr>"

definition local_connector :: Neo4jConnector where
  "local_connector = \<lparr> uri = ''bolt://localhost:7687'', user = ''neo4j'', password = ''secret'',
     driver = Some (''bolt://localhost:7687'', ''neo4j'', ''secret'') \<rparr>"

definition new_server :: "(nat \<Rightarrow> bool) \<Rightarrow> server" where
  "new_server r = \<lparr> graph = empty_graph, journal = [], raises = r, calls = 0 \<rparr>"

definition local_config :: config where
  "local_config = \<lparr> NEO4J_URI = ''bolt://localhost:7687'', NEO4J_USER = ''neo4j'',
     NEO4J_PASSWORD = ''secret'' \<rparr>"

definition unreachable :: "string \<Rightarrow> exn + response" where
  "unreachable url = Inl RequestException"

definition not_found :: "string \<Rightarrow> exn + response" where
  "not_found url = Inr \<lparr> status_code = 404, json = None \<rparr>"

definition serving :: "api_response \<Rightarrow> string \<Rightarrow> exn + response" where
  "serving body url = Inr \<lparr> status_code = 200, json = Some body \<rparr>"

section \<open>Rows of the normalized table\<close>

lemma length_to_numeric: "length (to_numeric col) = length col"
  by (simp add: to_numeric_def)

lemma to_numeric_nth:
  "i < length col \<Longrightarrow>
   to_numeric col ! i = (if list_all is_int_cell col then col ! i else to_float_cell (col ! i))"
  by (simp add: to_numeric_def)


lemma cleaned_rows_nth:
  "i < length df \<Longrightarrow>
   cleaned_rows today df ! i = clean_row today (to_numeric (map publish_year df) ! i) (df ! i)"
  by (simp add: cleaned_rows_def set_title_def set_publish_year_def set_authors_def set_id_def
      set_entity_type_def set_date_ingested_def set_confidence_score_def length_to_numeric
      clean_row_def Let_def o_def)

lemmas python_text =
  strip_def isspace_def title_case_def iscased_def isupper_def islower_def isdigit_def
  toupper_def tolower_def collapse_whitespace_def lower_def strip_non_alnum_def alnum_def
  str_int_def whitespace_def ascii_uppercase_def ascii_lowercase_def decimal_digits_def

lemmas extraction =
  extract_book_data_def extract_book_def extract_authors_def extract_year_def get_or_def
  fiction_def gatsby_def anonymous_def

lemmas normalization =
  cleaned_rows_def set_title_def set_publish_year_def set_authors_def set_id_def
  set_entity_type_def set_date_ingested_def set_confidence_score_def to_numeric_def
  is_int_cell_def to_float_cell_def make_id_def make_confidence_def notnull_def year_text_def

subsection \<open>The examples, evaluated\<close>



lemma gatsby_title: "title_case (strip '' the great gatsby '') = ''The Great Gatsby''"
  by (simp add: python_text)

lemma gatsby_slug: "take 20 (strip_non_alnum (lower ''The Great Gatsby'')) = ''thegreatgatsby''"
  by (simp add: python_text)

lemma gatsby_year: "str_int 1925 = ''1925''"
  by (simp add: python_text digits.simps)

lemma gatsby_authors: "strip (collapse_whitespace ''F. Scott Fitzgerald'') = ''F. Scott Fitzgerald''"
  by (simp add: python_text)

lemma beowulf_title: "title_case (strip ''Beowulf'') = ''Beowulf''"
  by (simp add: python_text)

lemma beowulf_slug: "take 20 (strip_non_alnum (lower ''Beowulf'')) = ''beowulf''"
  by (simp add: python_text)

lemma unknown_authors: "strip (collapse_whitespace ''Unknown'') = ''Unknown''"
  by (simp add: python_text)

lemmas example_text =
  gatsby_title gatsby_slug gatsby_year gatsby_authors beowulf_title beowulf_slug unknown_authors


lemma clean_gatsby_anonymous:
  "cleaned_rows today [gatsby_row, anonymous_row] =
     [\<lparr> title = ''The Great Gatsby'', authors = ''F. Scott Fitzgerald'', publish_year = YFloat 1925,
        subject = ''fiction'', edition_count = 3, key = [],
        book_id = Some ''book_thegreatgatsby_1925.0'', entity_type = Some ''book'',
        date_ingested = Some today, confidence_score = Some 1 \<rparr>,
      \<lparr> title = ''Beowulf'', authors = ''Unknown'', publish_year = YNaN,
        subject = ''fiction'', edition_count = 7, key = [],
        book_id = Some ''book_beowulf_nan'', entity_type = Some ''book'',
        date_ingested = Some today, confidence_score = Some (7 / 10) \<rparr>]"
  by (simp add: normalization gatsby_row_def anonymous_row_def example_text)

section \<open>Confidence score\<close>

text \<open>
  C3. For every row of the normalized table the confidence score is 0.7 or 1.0, and it is
  1.0 exactly when the row's coerced publish year is not missing and its authors string is
  not the sentinel \<open>Unknown\<close>.
\<close>

theorem confidence_score_two_levels:
  "i < length df \<Longrightarrow>
   (confidence_score (cleaned_rows today df ! i) = Some (7 / 10) \<or>
    confidence_score (cleaned_rows today df ! i) = Some 1) \<and>
   (confidence_score (cleaned_rows today df ! i) = Some 1 \<longleftrightarrow>
      notnull (publish_year (cleaned_rows today df ! i)) \<and>
      authors (cleaned_rows today df ! i) \<noteq> ''Unknown'')"
  by (simp add: cleaned_rows_nth clean_row_def Let_def make_confidence_def)

theorem confidence_score_two_levels_witness:
  "(1::nat) < length [gatsby_row, anonymous_row] \<and>
   confidence_score (cleaned_rows ''2024-05-01'' [gatsby_row, anonymous_row] ! 1) = Some (7 / 10)"
proof -
  have h: "(1::nat) < length [gatsby_row, anonymous_row]"
    by simp
  have a: "authors (cleaned_rows ''2024-05-01'' [gatsby_row, anonymous_row] ! 1) = ''Unknown''"
    by (simp add: clean_gatsby_anonymous)
  from confidence_score_two_levels [OF h, of "''2024-05-01''"] a
  have "confidence_score (cleaned_rows ''2024-05-01'' [gatsby_row, anonymous_row] ! 1) = Some (7 / 10)"
    by blast
  with h show ?thesis by blast
qed

section \<open>Identifier\<close>











section \<open>The normalizer works on a copy\<close>




section \<open>Works without authors or year\<close>

lemma written_by_run_statement:
  "\<not> is_written_by s \<Longrightarrow> written_by (run_statement s g) = written_by g"
  by (cases s) (simp_all add: is_written_by_def Let_def merge_book_id_def)

lemma published_in_run_statement:
  "\<not> is_published_in s \<Longrightarrow> published_in (run_statement s g) = published_in g"
  by (cases s) (simp_all add: is_published_in_def Let_def merge_book_id_def)

lemma written_by_run_statements:
  "filter is_written_by ss = [] \<Longrightarrow> written_by (run_statements ss g) = written_by g"
  unfolding run_statements_def
  by (induction ss arbitrary: g) (simp_all add: written_by_run_statement split: if_splits)

lemma published_in_run_statements:
  "filter is_published_in ss = [] \<Longrightarrow> published_in (run_statements ss g) = published_in g"
  unfolding run_statements_def
  by (induction ss arbitrary: g) (simp_all add: published_in_run_statement split: if_splits)

lemma extract_nth:
  "response_works r = Some ws \<Longrightarrow> i < length ws \<Longrightarrow>
   extract_book_data (Some r) ! i = extract_book r (ws ! i)"
  by (simp add: extract_book_data_def)

lemma extract_length:
  "response_works r = Some ws \<Longrightarrow> length (extract_book_data (Some r)) = length ws"
  by (simp add: extract_book_data_def)

lemma year_missing_nth:
  assumes "i < length df" "publish_year (df ! i) = YNone"
  shows "to_numeric (map publish_year df) ! i = YNaN"
proof -
  have "\<not> list_all is_int_cell (map publish_year df)"
    using assms by (auto simp: list_all_length is_int_cell_def)
  with assms show ?thesis by (simp add: to_numeric_nth to_float_cell_def)
qed

lemma sentinel_row:
  assumes "i < length df" and "authors (df ! i) = ''Unknown''"
  shows "authors (cleaned_rows today df ! i) = ''Unknown'' \<and>
     confidence_score (cleaned_rows today df ! i) = Some (7 / 10) \<and>
     (\<exists>b ss. book_id (cleaned_rows today df ! i) = Some b \<and>
        book_statements (cleaned_rows today df ! i) = Inr ss \<and>
        filter is_written_by ss = [] \<and>
        (\<forall>g. written_by (run_statements ss g) = written_by g))"
proof -
  have a: "authors (cleaned_rows today df ! i) = ''Unknown''"
    using assms by (simp add: cleaned_rows_nth clean_row_def Let_def unknown_authors)
  have c: "confidence_score (cleaned_rows today df ! i) = Some (7 / 10)"
    using assms by (simp add: cleaned_rows_nth clean_row_def Let_def unknown_authors make_confidence_def)
  obtain b where b: "book_id (cleaned_rows today df ! i) = Some b"
    using assms by (simp add: cleaned_rows_nth clean_row_def Let_def)
  have d: "date_ingested (cleaned_rows today df ! i) = Some today"
    using assms by (simp add: cleaned_rows_nth clean_row_def Let_def)
  obtain ss where s: "book_statements (cleaned_rows today df ! i) = Inr ss"
    and f: "filter is_written_by ss = []"
    using a b c d by (simp add: book_statements_def is_written_by_def)
  from f have "\<forall>g. written_by (run_statements ss g) = written_by g"
    by (simp add: written_by_run_statements)
  with a c b s f show ?thesis by blast
qed

text \<open>
  C7. A work that has no \<open>authors\<close> key and no \<open>first_publish_year\<close>, at any place of
  the response: its normalized record has the authors \<open>Unknown\<close>, a missing year and the
  confidence score 0.7; loading it sends exactly two statements, the upsert of the Book
  node and the upsert of its HAS_SUBJECT edge, so on every graph the WRITTEN_BY and the
  PUBLISHED_IN edges stay as they were, and the Book node and its HAS_SUBJECT edge are
  there afterwards.
\<close>

theorem no_authors_no_year:
  assumes "response_works r = Some ws" and "i < length ws"
    and "work_authors (ws ! i) = None" and "work_first_publish_year (ws ! i) = None"
  shows "authors (cleaned_rows today (extract_book_data (Some r)) ! i) = ''Unknown'' \<and>
     publish_year (cleaned_rows today (extract_book_data (Some r)) ! i) = YNaN \<and>
     \<not> notnull (publish_year (cleaned_rows today (extract_book_data (Some r)) ! i)) \<and>
     confidence_score (cleaned_rows today (extract_book_data (Some r)) ! i) = Some (7 / 10) \<and>
     (\<exists>b ss. book_id (cleaned_rows today (extract_book_data (Some r)) ! i) = Some b \<and>
        book_statements (cleaned_rows today (extract_book_data (Some r)) ! i) = Inr ss \<and>
        ss = [Merge_book b (title (cleaned_rows today (extract_book_data (Some r)) ! i))
                (edition_count (cleaned_rows today (extract_book_data (Some r)) ! i)) (7 / 10) today,
              Merge_has_subject (subject (cleaned_rows today (extract_book_data (Some r)) ! i)) b] \<and>
        (\<forall>g. written_by (run_statements ss g) = written_by g \<and>
              published_in (run_statements ss g) = published_in g \<and>
              b \<in> dom (book_nodes (run_statements ss g)) \<and>
              (b, subject (cleaned_rows today (extract_book_data (Some r)) ! i)) \<in> has_subject (run_statements ss g)))"
proof -
  let ?df = "extract_book_data (Some r)"
  have len: "i < length ?df" using assms by (simp add: extract_length)
  have raw: "?df ! i = extract_book r (ws ! i)" using assms by (simp add: extract_nth)
  have a: "authors (?df ! i) = ''Unknown''"
    using assms by (simp add: raw extract_book_def extract_authors_def)
  have y: "publish_year (?df ! i) = YNone"
    using assms by (simp add: raw extract_book_def extract_year_def)
  have n: "to_numeric (map publish_year ?df) ! i = YNaN"
    using len y by (rule year_missing_nth)
  show ?thesis
    using len a n
    by (simp add: cleaned_rows_nth clean_row_def Let_def unknown_authors make_confidence_def
        notnull_def book_statements_def run_statements_def merge_book_id_def)
qed

theorem no_authors_no_year_witness:
  "response_works (fiction [gatsby, anonymous]) = Some [gatsby, anonymous] \<and>
   (1::nat) < length [gatsby, anonymous] \<and>
   work_authors ([gatsby, anonymous] ! 1) = None \<and>
   work_first_publish_year ([gatsby, anonymous] ! 1) = None \<and>
   authors (cleaned_rows ''2024-05-01'' (extract_book_data (Some (fiction [gatsby, anonymous]))) ! 1) = ''Unknown'' \<and>
   confidence_score (cleaned_rows ''2024-05-01'' (extract_book_data (Some (fiction [gatsby, anonymous]))) ! 1) = Some (7 / 10)"
proof -
  have h1: "response_works (fiction [gatsby, anonymous]) = Some [gatsby, anonymous]"
    by (simp add: fiction_def)
  have h2: "(1::nat) < length [gatsby, anonymous]"
    by simp
  have h3: "work_authors ([gatsby, anonymous] ! 1) = None"
    by (simp add: anonymous_def)
  have h4: "work_first_publish_year ([gatsby, anonymous] ! 1) = None"
    by (simp add: anonymous_def)
  from no_authors_no_year [OF h1 h2 h3 h4, of "''2024-05-01''"] h1 h2 h3 h4
  show ?thesis by blast
qed

section \<open>Authors without a name\<close>

lemma extract_coauthored: "extract_book_data (Some (fiction [coauthored])) = [coauthored_row]"
  by (simp add: extraction coauthored_def coauthored_row_def)

lemma coauthored_text:
  "title_case (strip ''Lyrical Ballads'') = ''Lyrical Ballads''"
  "take 20 (strip_non_alnum (lower ''Lyrical Ballads'')) = ''lyricalballads''"
  "strip (collapse_whitespace ''Unknown, Unknown'') = ''Unknown, Unknown''"
  "str_int 1798 = ''1798''"
  "split_comma ''Unknown, Unknown'' = [''Unknown'', ''Unknown'']"
  by (simp_all add: python_text digits.simps)

lemma clean_coauthored:
  "cleaned_rows today [coauthored_row] =
     [\<lparr> title = ''Lyrical Ballads'', authors = ''Unknown, Unknown'', publish_year = YInt 1798,
        subject = ''fiction'', edition_count = 2, key = [],
        book_id = Some ''book_lyricalballads_1798'', entity_type = Some ''book'',
        date_ingested = Some today, confidence_score = Some 1 \<rparr>]"
  by (simp add: normalization coauthored_row_def coauthored_text)

text \<open>
  A work with two authors that have no name: the authors string is not the sentinel, the
  confidence score is 1.0 and two WRITTEN_BY statements are sent, to an author \<open>Unknown\<close>.
\<close>

theorem two_nameless_authors:
  "authors (extract_book_data (Some (fiction [coauthored])) ! 0) = ''Unknown, Unknown'' \<and>
   confidence_score (cleaned_rows ''2024-05-01'' (extract_book_data (Some (fiction [coauthored]))) ! 0) = Some 1 \<and>
   book_statements (cleaned_rows ''2024-05-01'' (extract_book_data (Some (fiction [coauthored]))) ! 0) =
     Inr [Merge_book ''book_lyricalballads_1798'' ''Lyrical Ballads'' 2 1 ''2024-05-01'',
          Merge_has_subject ''fiction'' ''book_lyricalballads_1798'',
          Merge_published_in 1798 ''book_lyricalballads_1798'',
          Merge_written_by ''Unknown'' ''book_lyricalballads_1798'',
          Merge_written_by ''Unknown'' ''book_lyricalballads_1798'']"
proof -
  have a: "authors (extract_book_data (Some (fiction [coauthored])) ! 0) = ''Unknown, Unknown''"
    by (simp add: extract_coauthored coauthored_row_def)
  have b: "confidence_score (cleaned_rows ''2024-05-01'' (extract_book_data (Some (fiction [coauthored]))) ! 0) = Some 1 \<and>
   book_statements (cleaned_rows ''2024-05-01'' (extract_book_data (Some (fiction [coauthored]))) ! 0) =
     Inr [Merge_book ''book_lyricalballads_1798'' ''Lyrical Ballads'' 2 1 ''2024-05-01'',
          Merge_has_subject ''fiction'' ''book_lyricalballads_1798'',
          Merge_published_in 1798 ''book_lyricalballads_1798'',
          Merge_written_by ''Unknown'' ''book_lyricalballads_1798'',
          Merge_written_by ''Unknown'' ''book_lyricalballads_1798'']"
    by (simp add: extract_coauthored clean_coauthored book_statements_def
        notnull_def year_int_def coauthored_text)
  from a b show ?thesis by blast
qed

text \<open>
  C10, as the code has it. A work whose authors list has exactly one entry, which has no
  name or is named \<open>Unknown\<close>: extraction gives the authors string \<open>Unknown\<close>, the
  normalized record has the confidence score 0.7 and loading it sends no WRITTEN_BY
  statement, so the WRITTEN_BY edges of every graph stay as they were.
\<close>

theorem sole_author_unknown:
  assumes "response_works r = Some ws" and "i < length ws"
    and "work_authors (ws ! i) = Some [a]"
    and "author_name a = None \<or> author_name a = Some ''Unknown''"
  shows "authors (extract_book_data (Some r) ! i) = ''Unknown'' \<and>
     authors (cleaned_rows today (extract_book_data (Some r)) ! i) = ''Unknown'' \<and>
     confidence_score (cleaned_rows today (extract_book_data (Some r)) ! i) = Some (7 / 10) \<and>
     (\<exists>b ss. book_id (cleaned_rows today (extract_book_data (Some r)) ! i) = Some b \<and>
        book_statements (cleaned_rows today (extract_book_data (Some r)) ! i) = Inr ss \<and>
        filter is_written_by ss = [] \<and>
        (\<forall>g. written_by (run_statements ss g) = written_by g))"
proof -
  let ?df = "extract_book_data (Some r)"
  have len: "i < length ?df" using assms by (simp add: extract_length)
  have raw: "?df ! i = extract_book r (ws ! i)" using assms by (simp add: extract_nth)
  have a: "authors (?df ! i) = ''Unknown''"
    using assms by (auto simp: raw extract_book_def extract_authors_def get_or_def)
  from sentinel_row [OF len a, of today] a show ?thesis by blast
qed

theorem sole_author_unknown_witness:
  "response_works (fiction [gatsby, nameless]) = Some [gatsby, nameless] \<and>
   (1::nat) < length [gatsby, nameless] \<and>
   work_authors ([gatsby, nameless] ! 1) = Some [\<lparr>author_name = None\<rparr>] \<and>
   (author_name \<lparr>author_name = None\<rparr> = None \<or> author_name \<lparr>author_name = None\<rparr> = Some ''Unknown'') \<and>
   authors (extract_book_data (Some (fiction [gatsby, nameless])) ! 1) = ''Unknown'' \<and>
   confidence_score (cleaned_rows ''2024-05-01'' (extract_book_data (Some (fiction [gatsby, nameless]))) ! 1) = Some (7 / 10)"
proof -
  have h1: "response_works (fiction [gatsby, nameless]) = Some [gatsby, nameless]"
    by (simp add: fiction_def)
  have h2: "(1::nat) < length [gatsby, nameless]"
    by simp
  have h3: "work_authors ([gatsby, nameless] ! 1) = Some [\<lparr>author_name = None\<rparr>]"
    by (simp add: nameless_def)
  have h4: "author_name \<lparr>author_name = None\<rparr> = None \<or> author_name \<lparr>author_name = None\<rparr> = Some ''Unknown''"
    by simp
  from sole_author_unknown [OF h1 h2 h3 h4, of "''2024-05-01''"] h1 h2 h3 h4
  show ?thesis by blast
qed

section \<open>Fetcher\<close>

text \<open>A transport failure: the exception of \<open>requests.get\<close> leaves \<open>fetch_books_by_subject\<close>.\<close>

theorem fetch_transport_failure:
  "snd (fetch_books_by_subject unreachable ''fiction'' 20) = Inl RequestException"
  by (simp add: fetch_books_by_subject_def unreachable_def Let_def)

text \<open>
  C4, as the code has it. For every subject and limit the fetcher makes one GET, to the
  subject URL with the limit. On a status other than 200 it returns \<open>None\<close> and raises
  nothing; on status 200 it returns the parsed body; a transport failure is not caught:
  the exception of \<open>requests.get\<close> goes to the caller.
\<close>

theorem fetch_outcomes:
  "fst (fetch_books_by_subject requests_get subj limit) =
     [''http://openlibrary.org/subjects/'' @ subj @ ''.json?limit='' @ str_int limit] \<and>
   (requests_get (''http://openlibrary.org/subjects/'' @ subj @ ''.json?limit='' @ str_int limit) = Inr r \<and>
      status_code r \<noteq> 200
      \<longrightarrow> snd (fetch_books_by_subject requests_get subj limit) = Inr None) \<and>
   (requests_get (''http://openlibrary.org/subjects/'' @ subj @ ''.json?limit='' @ str_int limit) = Inr r \<and>
      status_code r = 200 \<and> json r = Some body
      \<longrightarrow> snd (fetch_books_by_subject requests_get subj limit) = Inr (Some body)) \<and>
   (requests_get (''http://openlibrary.org/subjects/'' @ subj @ ''.json?limit='' @ str_int limit) = Inl e
      \<longrightarrow> snd (fetch_books_by_subject requests_get subj limit) = Inl e)"
  by (simp add: fetch_books_by_subject_def Let_def)

theorem fetch_outcomes_witness:
  "not_found (''http://openlibrary.org/subjects/'' @ ''fiction'' @ ''.json?limit='' @ str_int 20) =
     Inr \<lparr> status_code = 404, json = None \<rparr> \<and>
   status_code \<lparr> status_code = 404, json = None \<rparr> \<noteq> 200 \<and>
   snd (fetch_books_by_subject not_found ''fiction'' 20) = Inr None"
proof -
  have h1: "not_found (''http://openlibrary.org/subjects/'' @ ''fiction'' @ ''.json?limit='' @ str_int 20) =
     Inr \<lparr> status_code = 404, json = None \<rparr>"
    by (simp add: not_found_def)
  have h2: "status_code \<lparr> status_code = 404, json = None \<rparr> \<noteq> 200"
    by simp
  from fetch_outcomes [of not_found "''fiction''" 20 "\<lparr> status_code = 404, json = None \<rparr>"] h1 h2
  show ?thesis by blast
qed

section \<open>Operations of the graph loader\<close>

lemmas sequencing = and_then_def return_def try_except_def session_def session_run_def
  session_query_def call_def

text \<open>
  \<open>clear_database\<close> on a server where every call raises, and on a server where none
  does: the caller gets \<open>None\<close> both times. The same holds for \<open>create_constraints\<close>.
\<close>

theorem clear_database_returns_none:
  "fst (clear_database local_connector (new_server (\<lambda>k. True)) :: (exn + unit pyval) \<times> server) = Inr PyNone \<and>
   fst (clear_database local_connector (new_server (\<lambda>k. False)) :: (exn + unit pyval) \<times> server) = Inr PyNone \<and>
   fst (create_constraints local_connector (new_server (\<lambda>k. True)) :: (exn + unit pyval) \<times> server) = Inr PyNone \<and>
   fst (create_constraints local_connector (new_server (\<lambda>k. False)) :: (exn + unit pyval) \<times> server) = Inr PyNone"
  by (simp add: clear_database_def create_constraints_def sequencing local_connector_def new_server_def)

lemma load_books_returns_none: "fst (load_books self df s) = Inr PyNone"
  by (simp add: load_books_def sequencing split: prod.splits sum.splits option.splits)

text \<open>
  C5, as the code has it. Whatever calls of the driver raise, no operation of the graph
  loader lets an exception out. \<open>connect\<close> and \<open>verify_connection\<close> return \<open>False\<close> when
  a call raised and \<open>True\<close> otherwise; \<open>run_analytics_queries\<close> returns the empty
  dictionary when a call raised and the four metrics otherwise; \<open>clear_database\<close>,
  \<open>create_constraints\<close> and \<open>load_books\<close> return \<open>None\<close> in both cases.
\<close>

theorem operations_catch_errors:
  "fst (connect self s) = Inr (PyBool (\<not> raises s (calls s))) \<and>
   fst (verify_connection self s) =
     Inr (PyBool (driver self \<noteq> None \<and> \<not> raises s (calls s) \<and> \<not> raises s (calls s + 1))) \<and>
   fst (clear_database self s) = Inr PyNone \<and>
   fst (create_constraints self s) = Inr PyNone \<and>
   fst (load_books self df s) = Inr PyNone \<and>
   fst (run_analytics_queries answer self s) =
     Inr (if driver self \<noteq> None \<and> \<not> raises s (calls s) \<and> \<not> raises s (calls s + 1) \<and>
             \<not> raises s (calls s + 2) \<and> \<not> raises s (calls s + 3) \<and> \<not> raises s (calls s + 4)
          then PyDict [(''node_counts'', answer ''node_counts'' (graph s)),
                       (''top_authors'', answer ''top_authors'' (graph s)),
                       (''books_by_decade'', answer ''books_by_decade'' (graph s)),
                       (''top_subjects'', answer ''top_subjects'' (graph s))]
          else PyDict [])"
proof -
  have 1: "fst (connect self s) = Inr (PyBool (\<not> raises s (calls s)))"
    by (simp add: connect_def call_def)
  have 2: "fst (verify_connection self s) =
     Inr (PyBool (driver self \<noteq> None \<and> \<not> raises s (calls s) \<and> \<not> raises s (calls s + 1)))"
    by (cases "driver self") (simp_all add: verify_connection_def sequencing)
  have 3: "fst (clear_database self s) = Inr PyNone"
    by (cases "driver self") (simp_all add: clear_database_def sequencing)
  have 4: "fst (create_constraints self s) = Inr PyNone"
    by (cases "driver self") (simp_all add: create_constraints_def sequencing)
  have 5: "fst (load_books self df s) = Inr PyNone"
    by (rule load_books_returns_none)
  have 6: "fst (run_analytics_queries answer self s) =
     Inr (if driver self \<noteq> None \<and> \<not> raises s (calls s) \<and> \<not> raises s (calls s + 1) \<and>
             \<not> raises s (calls s + 2) \<and> \<not> raises s (calls s + 3) \<and> \<not> raises s (calls s + 4)
          then PyDict [(''node_counts'', answer ''node_counts'' (graph s)),
                       (''top_authors'', answer ''top_authors'' (graph s)),
                       (''books_by_decade'', answer ''books_by_decade'' (graph s)),
                       (''top_subjects'', answer ''top_subjects'' (graph s))]
          else PyDict [])"
    by (cases "driver self") (simp_all add: run_analytics_queries_def sequencing eval_nat_numeral)
  from 1 2 3 4 5 6 show ?thesis by blast
qed

theorem operations_catch_errors_witness:
  "fst (verify_connection local_connector (new_server (\<lambda>k. k = 1)) :: (exn + unit pyval) \<times> server) = Inr (PyBool False) \<and>
   fst (connect local_connector (new_server (\<lambda>k. k = 0)) :: (exn + unit pyval) \<times> Neo4jConnector \<times> server) = Inr (PyBool False)"
proof -
  from operations_catch_errors [of local_connector "new_server (\<lambda>k. k = 1)"]
  have v: "fst (verify_connection local_connector (new_server (\<lambda>k. k = 1)) :: (exn + unit pyval) \<times> server) =
     Inr (PyBool (driver local_connector \<noteq> None \<and> \<not> raises (new_server (\<lambda>k. k = 1)) (calls (new_server (\<lambda>k. k = 1))) \<and>
        \<not> raises (new_server (\<lambda>k. k = 1)) (calls (new_server (\<lambda>k. k = 1)) + 1)))"
    by blast
  from operations_catch_errors [of local_connector "new_server (\<lambda>k. k = 0)"]
  have c: "fst (connect local_connector (new_server (\<lambda>k. k = 0)) :: (exn + unit pyval) \<times> Neo4jConnector \<times> server) =
     Inr (PyBool (\<not> raises (new_server (\<lambda>k. k = 0)) (calls (new_server (\<lambda>k. k = 0)))))"
    by blast
  from v c show ?thesis
    by (simp add: new_server_def local_connector_def)
qed

section \<open>Connection parameters\<close>

text \<open>
  C6. A connector made for another address and other credentials than those of the
  configuration connects with the configuration's.
\<close>

theorem connect_ignores_arguments:
  "init local_config ''bolt://graph.example.org:7687'' ''alice'' ''wonderland'' =
     \<lparr> uri = ''bolt://localhost:7687'', user = ''neo4j'', password = ''secret'', driver = None \<rparr> \<and>
   driver (fst (snd (connect (init local_config ''bolt://graph.example.org:7687'' ''alice'' ''wonderland'')
                       (new_server (\<lambda>k. False)) :: (exn + unit pyval) \<times> Neo4jConnector \<times> server))) =
     Some (''bolt://localhost:7687'', ''neo4j'', ''secret'')"
  by (simp add: init_def local_config_def connect_def call_def new_server_def)

section \<open>Batches\<close>

lemma batches_alt:
  "batches df = map (\<lambda>k. take 50 (drop (k * 50) df)) [0 ..< (length df + 49) div 50]"
proof -
  have "length df + 50 - 1 = length df + 49" by simp
  then show ?thesis
    by (simp only: batches_def batch_starts_def batch_size_def map_map o_def)
qed

lemma batches_Nil: "batches [] = []"
  by (simp add: batches_alt)

lemma batch_count_Suc: "0 < (n::nat) \<Longrightarrow> (n + 49) div 50 = Suc ((n - 50 + 49) div 50)"
proof (cases "n < 50")
  case True
  assume "0 < n"
  with True have "(n + 49) div 50 = 1" by (simp add: div_nat_eqI)
  with True show ?thesis by simp
next
  case False
  then have "n + 49 = (n - 50 + 49) + 50" by simp
  then have "(n + 49) div 50 = ((n - 50 + 49) + 50) div 50" by simp
  also have "\<dots> = Suc ((n - 50 + 49) div 50)" by (simp only: div_add_self2)
  finally show ?thesis .
qed

lemma batches_rec:
  assumes "df \<noteq> []" shows "batches df = take 50 df # batches (drop 50 df)"
proof -
  define q where "q = (length (drop 50 df) + 49) div 50"
  have n: "0 < length df" using assms by simp
  have "(length df + 49) div 50 = Suc q"
    unfolding q_def length_drop using n by (rule batch_count_Suc)
  then have "[0 ..< (length df + 49) div 50] = 0 # map Suc [0 ..< q]"
    by (simp only: map_Suc_upt upt_conv_Cons [of 0 "Suc q"] zero_less_Suc)
  then have "batches df =
      take 50 (drop (0 * 50) df) # map (\<lambda>k. take 50 (drop (Suc k * 50) df)) [0 ..< q]"
    by (simp only: batches_alt list.map map_map o_def)
  also have "\<dots> = take 50 df # map (\<lambda>k. take 50 (drop (k * 50) (drop 50 df))) [0 ..< q]"
    by (simp add: add.commute)
  also have "\<dots> = take 50 df # batches (drop 50 df)"
    by (simp only: batches_alt [of "drop 50 df"] q_def)
  finally show ?thesis .
qed

lemma concat_batches: "concat (batches df) = df"
proof (induction df rule: length_induct)
  case (1 df)
  show ?case
  proof (cases "df = []")
    case True
    then show ?thesis by (simp add: batches_Nil)
  next
    case False
    then have "length (drop 50 df) < length df" by simp
    with 1 have "concat (batches (drop 50 df)) = drop 50 df" by blast
    with False show ?thesis by (simp add: batches_rec)
  qed
qed

lemma length_batches: "length (batches df) = (length df + 49) div 50"
  by (simp add: batches_alt)

lemma batches_nth: "k < length (batches df) \<Longrightarrow> batches df ! k = take 50 (drop (k * 50) df)"
  by (simp add: batches_alt)

lemma batch_bounds:
  "k < length (batches df) \<Longrightarrow> batches df ! k \<noteq> [] \<and> length (batches df ! k) \<le> 50"
  by (simp add: batches_nth) (simp add: length_batches)

lemma batch_full: "Suc k < length (batches df) \<Longrightarrow> length (batches df ! k) = 50"
  by (simp add: batches_nth) (simp add: length_batches)

lemma batch_sizes_101: "length df = 101 \<Longrightarrow> map length (batches df) = [50, 50, 1]"
  by (simp add: batches_alt upt_rec)

lemma batches_loadable:
  assumes "list_all loadable df" and "b \<in> set (batches df)"
  shows "list_all loadable b"
proof -
  from assms(2) have "set b \<subseteq> set (concat (batches df))" by auto
  then have "set b \<subseteq> set df" by (simp only: concat_batches)
  with assms(1) show ?thesis by (auto simp: list_all_iff)
qed

section \<open>Write transactions\<close>

lemma book_statements_loadable: "loadable x \<Longrightarrow> \<exists>ss. book_statements x = Inr ss"
  by (auto simp: loadable_def book_statements_def)

lemma create_book_nodes_loadable:
  "list_all loadable batch \<Longrightarrow> create_book_nodes batch = Inr (batch_statements batch)"
proof (induction batch)
  case Nil
  then show ?case by (simp add: batch_statements_def)
next
  case (Cons x batch)
  then obtain ss where "book_statements x = Inr ss"
    using book_statements_loadable by auto
  with Cons show ?case by (simp add: batch_statements_def split: sum.splits)
qed

lemma execute_write_commit:
  "\<not> raises s (calls s) \<Longrightarrow> list_all loadable b \<Longrightarrow>
   execute_write b s =
     (Inr (), s\<lparr>graph := run_statements (batch_statements b) (graph s),
                journal := journal s @ [(b, True)], calls := Suc (calls s)\<rparr>)"
  by (simp add: execute_write_def call_def create_book_nodes_loadable)

lemma execute_write_raise:
  "raises s (calls s) \<Longrightarrow>
   execute_write b s = (Inl Neo4jError, s\<lparr>journal := journal s @ [(b, False)], calls := Suc (calls s)\<rparr>)"
  by (simp add: execute_write_def call_def)

lemma write_batches_commit:
  "(\<forall>k < length bs. \<not> raises s (calls s + k)) \<Longrightarrow> (\<forall>b \<in> set bs. list_all loadable b) \<Longrightarrow>
   write_batches bs s =
     (Inr (), s\<lparr>graph := committed bs (graph s),
                journal := journal s @ map (\<lambda>b. (b, True)) bs, calls := calls s + length bs\<rparr>)"
proof (induction bs arbitrary: s)
  case Nil
  then show ?case by (simp add: committed_def)
next
  case (Cons b bs)
  let ?s = "s\<lparr>graph := run_statements (batch_statements b) (graph s),
               journal := journal s @ [(b, True)], calls := Suc (calls s)\<rparr>"
  from Cons.prems(1) have 0: "\<not> raises s (calls s)" by force
  from Cons.prems(2) have l: "list_all loadable b" by simp
  have r: "\<forall>k < length bs. \<not> raises ?s (calls ?s + k)"
  proof (intro allI impI)
    fix k assume "k < length bs"
    then have "Suc k < length (b # bs)" by simp
    with Cons.prems(1) have "\<not> raises s (calls s + Suc k)" by blast
    then show "\<not> raises ?s (calls ?s + k)" by simp
  qed
  from Cons.prems(2) have "\<forall>b \<in> set bs. list_all loadable b" by simp
  with Cons.IH [OF r] have "write_batches bs ?s =
     (Inr (), ?s\<lparr>graph := committed bs (graph ?s),
                 journal := journal ?s @ map (\<lambda>b. (b, True)) bs, calls := calls ?s + length bs\<rparr>)"
    by blast
  with 0 l show ?case by (simp add: execute_write_commit committed_def)
qed

lemma write_batches_abort:
  "n < length bs \<Longrightarrow> (\<forall>k < n. \<not> raises s (calls s + k)) \<Longrightarrow> raises s (calls s + n) \<Longrightarrow>
   (\<forall>b \<in> set bs. list_all loadable b) \<Longrightarrow>
   write_batches bs s =
     (Inl Neo4jError, s\<lparr>graph := committed (take n bs) (graph s),
                journal := journal s @ map (\<lambda>b. (b, True)) (take n bs) @ [(bs ! n, False)],
                calls := calls s + Suc n\<rparr>)"
proof (induction bs arbitrary: s n)
  case Nil
  then show ?case by simp
next
  case (Cons b bs)
  show ?case
  proof (cases n)
    case 0
    with Cons.prems show ?thesis by (simp add: execute_write_raise committed_def)
  next
    case (Suc m)
    let ?s = "s\<lparr>graph := run_statements (batch_statements b) (graph s),
                 journal := journal s @ [(b, True)], calls := Suc (calls s)\<rparr>"
    from Cons.prems(2) Suc have 0: "\<not> raises s (calls s)" by force
    from Cons.prems(4) have l: "list_all loadable b" by simp
    from Cons.prems(1) Suc have m: "m < length bs" by simp
    have r: "\<forall>k < m. \<not> raises ?s (calls ?s + k)"
    proof (intro allI impI)
      fix k assume "k < m"
      then have "Suc k < n" using Suc by simp
      with Cons.prems(2) have "\<not> raises s (calls s + Suc k)" by blast
      then show "\<not> raises ?s (calls ?s + k)" by simp
    qed
    from Cons.prems(3) Suc have f: "raises ?s (calls ?s + m)" by simp
    from Cons.prems(4) have "\<forall>b \<in> set bs. list_all loadable b" by simp
    with Cons.IH [OF m r f] have "write_batches bs ?s =
       (Inl Neo4jError, ?s\<lparr>graph := committed (take m bs) (graph ?s),
                journal := journal ?s @ map (\<lambda>b. (b, True)) (take m bs) @ [(bs ! m, False)],
                calls := calls ?s + Suc m\<rparr>)"
      by blast
    with 0 l Suc show ?thesis by (simp add: execute_write_commit committed_def)
  qed
qed

lemma load_books_state:
  "driver self \<noteq> None \<Longrightarrow> \<not> raises s (calls s) \<Longrightarrow>
   snd (load_books self df s) = snd (write_batches (batches df) (s\<lparr>calls := Suc (calls s)\<rparr>))"
  by (auto simp: load_books_def sequencing split: prod.splits sum.splits)

lemma load_books_commit:
  assumes "driver self \<noteq> None" and "\<not> raises s (calls s)" and "list_all loadable df"
    and "\<forall>k < length (batches df). \<not> raises s (calls s + 1 + k)"
  shows "journal (snd (load_books self df s)) = journal s @ map (\<lambda>b. (b, True)) (batches df) \<and>
     graph (snd (load_books self df s)) = committed (batches df) (graph s)"
proof -
  let ?s = "s\<lparr>calls := Suc (calls s)\<rparr>"
  from assms(4) have r: "\<forall>k < length (batches df). \<not> raises ?s (calls ?s + k)" by simp
  from assms(3) have l: "\<forall>b \<in> set (batches df). list_all loadable b"
    using batches_loadable by blast
  show ?thesis
    by (simp add: load_books_state [OF assms(1,2)] write_batches_commit [OF r l])
qed

lemma load_books_abort:
  assumes "driver self \<noteq> None" and "\<not> raises s (calls s)" and "list_all loadable df"
    and "n < length (batches df)" and "\<forall>k < n. \<not> raises s (calls s + 1 + k)"
    and "raises s (calls s + 1 + n)"
  shows "journal (snd (load_books self df s)) =
       journal s @ map (\<lambda>b. (b, True)) (take n (batches df)) @ [(batches df ! n, False)] \<and>
     graph (snd (load_books self df s)) = committed (take n (batches df)) (graph s)"
proof -
  let ?s = "s\<lparr>calls := Suc (calls s)\<rparr>"
  from assms(5) have r: "\<forall>k < n. \<not> raises ?s (calls ?s + k)" by simp
  from assms(6) have f: "raises ?s (calls ?s + n)" by simp
  from assms(3) have l: "\<forall>b \<in> set (batches df). list_all loadable b"
    using batches_loadable by blast
  show ?thesis
    by (simp add: load_books_state [OF assms(1,2)] write_batches_abort [OF assms(4) r f l])
qed

lemma gatsby_clean_loadable: "list_all loadable (replicate 101 gatsby_clean)"
  by (simp add: list_all_iff loadable_def gatsby_clean_def)

lemma abort_sizes:
  assumes "map length bs = [50, 50, 1]"
  shows "map (\<lambda>(b, ok). (length b, ok)) (map (\<lambda>b. (b, True)) (take 1 bs) @ [(bs ! 1, False)]) =
         [(50, True), (50, False)]"
proof -
  from assms obtain a b c where bs: "bs = [a, b, c]"
    by (auto simp: map_eq_Cons_conv)
  with assms show ?thesis by simp
qed

text \<open>
  101 records, the second transaction raises: the journal has the first batch, committed,
  and the second, not committed, and nothing else. The third batch is not attempted.
\<close>

theorem load_stops_at_failed_batch:
  "map (\<lambda>(b, ok). (length b, ok))
     (journal (snd (load_books local_connector (replicate 101 gatsby_clean) (new_server (\<lambda>k. k = 2))
                      :: (exn + unit pyval) \<times> server))) =
   [(50, True), (50, False)]"
proof -
  have d: "driver local_connector \<noteq> None"
    by (simp add: local_connector_def)
  have o: "\<not> raises (new_server (\<lambda>k. k = 2)) (calls (new_server (\<lambda>k. k = 2)))"
    by (simp add: new_server_def)
  have z: "map length (batches (replicate 101 gatsby_clean)) = [50, 50, 1]"
    by (rule batch_sizes_101) simp
  then have "length (map length (batches (replicate 101 gatsby_clean))) = 3"
    by simp
  then have n: "1 < length (batches (replicate 101 gatsby_clean))"
    by simp
  have r: "\<forall>k < 1. \<not> raises (new_server (\<lambda>k. k = 2)) (calls (new_server (\<lambda>k. k = 2)) + 1 + k)"
    by (simp add: new_server_def)
  have f: "raises (new_server (\<lambda>k. k = 2)) (calls (new_server (\<lambda>k. k = 2)) + 1 + 1)"
    by (simp add: new_server_def)
  have j: "journal (new_server (\<lambda>k. k = 2)) = []"
    by (simp add: new_server_def)
  from load_books_abort [OF d o gatsby_clean_loadable n r f]
  have "journal (snd (load_books local_connector (replicate 101 gatsby_clean) (new_server (\<lambda>k. k = 2))
                      :: (exn + unit pyval) \<times> server)) =
        journal (new_server (\<lambda>k. k = 2)) @
        map (\<lambda>b. (b, True)) (take 1 (batches (replicate 101 gatsby_clean))) @
          [(batches (replicate 101 gatsby_clean) ! 1, False)]"
    by blast
  then have "journal (snd (load_books local_connector (replicate 101 gatsby_clean) (new_server (\<lambda>k. k = 2))
                      :: (exn + unit pyval) \<times> server)) =
        map (\<lambda>b. (b, True)) (take 1 (batches (replicate 101 gatsby_clean))) @
          [(batches (replicate 101 gatsby_clean) ! 1, False)]"
    by (simp only: j append_Nil)
  then show ?thesis by (simp only: abort_sizes [OF z])
qed

text \<open>
  C2, as the code has it. \<open>load_books\<close> cuts the records into consecutive batches of 50
  (batch \<open>k\<close> is the rows from \<open>50 k\<close> on, at most 50 of them, and never empty; together
  the batches are the table), so 101 records make batches of 50, 50 and 1. With a
  driver, a session that opens and rows that have their columns: when no transaction
  fails, one write transaction is committed per batch, in order; when transaction
  \<open>n\<close> is the first to fail, the \<open>n\<close> batches before it stay committed, the failed batch
  is rolled back, and no later batch is attempted.
\<close>

theorem load_books_batches:
  assumes "driver self \<noteq> None" and "\<not> raises s (calls s)" and "list_all loadable df"
  shows "concat (batches df) = df \<and>
    (\<forall>k < length (batches df).
        batches df ! k = take 50 (drop (k * 50) df) \<and> batches df ! k \<noteq> [] \<and>
        length (batches df ! k) \<le> 50) \<and>
    (length df = 101 \<longrightarrow> map length (batches df) = [50, 50, 1]) \<and>
    ((\<forall>k < length (batches df). \<not> raises s (calls s + 1 + k)) \<longrightarrow>
        journal (snd (load_books self df s)) = journal s @ map (\<lambda>b. (b, True)) (batches df) \<and>
        graph (snd (load_books self df s)) = committed (batches df) (graph s)) \<and>
    (n < length (batches df) \<and> (\<forall>k < n. \<not> raises s (calls s + 1 + k)) \<and> raises s (calls s + 1 + n) \<longrightarrow>
        journal (snd (load_books self df s)) =
          journal s @ map (\<lambda>b. (b, True)) (take n (batches df)) @ [(batches df ! n, False)] \<and>
        graph (snd (load_books self df s)) = committed (take n (batches df)) (graph s))"
proof (intro conjI impI allI)
  show "concat (batches df) = df" by (rule concat_batches)
next
  fix k assume "k < length (batches df)"
  then show "batches df ! k = take 50 (drop (k * 50) df)" by (rule batches_nth)
next
  fix k assume "k < length (batches df)"
  then show "batches df ! k \<noteq> []" by (simp add: batch_bounds)
next
  fix k assume "k < length (batches df)"
  then show "length (batches df ! k) \<le> 50" by (simp add: batch_bounds)
next
  assume "length df = 101"
  then show "map length (batches df) = [50, 50, 1]" by (rule batch_sizes_101)
next
  assume a: "\<forall>k < length (batches df). \<not> raises s (calls s + 1 + k)"
  from load_books_commit [OF assms a]
  show "journal (snd (load_books self df s)) = journal s @ map (\<lambda>b. (b, True)) (batches df)"
    by blast
next
  assume a: "\<forall>k < length (batches df). \<not> raises s (calls s + 1 + k)"
  from load_books_commit [OF assms a]
  show "graph (snd (load_books self df s)) = committed (batches df) (graph s)"
    by blast
next
  assume a: "n < length (batches df) \<and> (\<forall>k < n. \<not> raises s (calls s + 1 + k)) \<and> raises s (calls s + 1 + n)"
  then have 1: "n < length (batches df)" and 2: "\<forall>k < n. \<not> raises s (calls s + 1 + k)"
    and 3: "raises s (calls s + 1 + n)" by blast+
  from load_books_abort [OF assms 1 2 3]
  show "journal (snd (load_books self df s)) =
          journal s @ map (\<lambda>b. (b, True)) (take n (batches df)) @ [(batches df ! n, False)]"
    by blast
next
  assume a: "n < length (batches df) \<and> (\<forall>k < n. \<not> raises s (calls s + 1 + k)) \<and> raises s (calls s + 1 + n)"
  then have 1: "n < length (batches df)" and 2: "\<forall>k < n. \<not> raises s (calls s + 1 + k)"
    and 3: "raises s (calls s + 1 + n)" by blast+
  from load_books_abort [OF assms 1 2 3]
  show "graph (snd (load_books self df s)) = committed (take n (batches df)) (graph s)"
    by blast
qed

theorem load_books_batches_witness:
  "driver local_connector \<noteq> None \<and>
   \<not> raises (new_server (\<lambda>k. k = 2)) (calls (new_server (\<lambda>k. k = 2))) \<and>
   list_all loadable (replicate 101 gatsby_clean) \<and>
   length (replicate 101 gatsby_clean) = 101 \<and>
   1 < length (batches (replicate 101 gatsby_clean)) \<and>
   \<not> raises (new_server (\<lambda>k. k = 2)) (calls (new_server (\<lambda>k. k = 2)) + 1 + 0) \<and>
   raises (new_server (\<lambda>k. k = 2)) (calls (new_server (\<lambda>k. k = 2)) + 1 + 1) \<and>
   map length (batches (replicate 101 gatsby_clean)) = [50, 50, 1] \<and>
   graph (snd (load_books local_connector (replicate 101 gatsby_clean) (new_server (\<lambda>k. k = 2))
                 :: (exn + unit pyval) \<times> server)) =
     committed (take 1 (batches (replicate 101 gatsby_clean))) (graph (new_server (\<lambda>k. k = 2)))"
proof -
  have d: "driver local_connector \<noteq> None"
    by (simp add: local_connector_def)
  have o: "\<not> raises (new_server (\<lambda>k. k = 2)) (calls (new_server (\<lambda>k. k = 2)))"
    by (simp add: new_server_def)
  have c: "length (replicate 101 gatsby_clean) = 101"
    by simp
  have "length (batches (replicate 101 gatsby_clean)) = 3"
    by (simp add: length_batches)
  then have n: "1 < length (batches (replicate 101 gatsby_clean))"
    by simp
  have r: "\<forall>k < 1. \<not> raises (new_server (\<lambda>k. k = 2)) (calls (new_server (\<lambda>k. k = 2)) + 1 + k)"
    by (simp add: new_server_def)
  have r0: "\<not> raises (new_server (\<lambda>k. k = 2)) (calls (new_server (\<lambda>k. k = 2)) + 1 + 0)"
    by (simp add: new_server_def)
  have f: "raises (new_server (\<lambda>k. k = 2)) (calls (new_server (\<lambda>k. k = 2)) + 1 + 1)"
    by (simp add: new_server_def)
  from load_books_batches [OF d o gatsby_clean_loadable, of 1] c n r f
  have "map length (batches (replicate 101 gatsby_clean)) = [50, 50, 1] \<and>
     graph (snd (load_books local_connector (replicate 101 gatsby_clean) (new_server (\<lambda>k. k = 2))
                 :: (exn + unit pyval) \<times> server)) =
     committed (take 1 (batches (replicate 101 gatsby_clean))) (graph (new_server (\<lambda>k. k = 2)))"
    by blast
  with d o gatsby_clean_loadable c n r0 f show ?thesis by blast
qed

end
